theory Spec2Isabelle
  imports Main "HOL-Library.Word" "HOL-Library.Multiset"
begin

section \<open>Package thirdweb: the ERC-1155 facade (pkg/thirdweb/erc1155.go)\<close>

subsection \<open>Data\<close>

text \<open>
  Go's \<open>int\<close> (64 bits wide, as on a 64-bit platform) and \<open>int64\<close> values are
  modelled as \<open>int\<close>; every value of that type that the code builds from a
  \<open>*big.Int\<close> goes through \<open>Int64\<close> below, which is where the 64-bit width shows.
  The other way, \<open>big.NewInt(int64(i))\<close>, is exact. \<open>*big.Int\<close> values are unbounded
  and are \<open>int\<close> as well. \<open>common.Address\<close> is 20 bytes.
\<close>

type_synonym address = "160 word"

text \<open>
  \<open>(*big.Int).Int64\<close> of the Go standard library: the low 64 bits of the magnitude,
  negated for a negative number, read as a signed 64-bit value. That is the two's
  complement reading of the number modulo \<open>2 ^ 64\<close>.
\<close>

definition Int64 :: "int \<Rightarrow> int" where
  "Int64 x = sint (word_of_int x :: 64 word)"

text \<open>
  Modelled from the spec: the error types are declared in other files of the package.
  \<open>NotFoundError\<close> carries the token id, as \<open>getTokenMetadata\<close> builds it;
  \<open>MetadataUnavailable\<close> is the failure of the metadata store of section 7 of the
  specification; \<open>CallError\<close> stands for whatever a chain collaborator reports, and
  \<open>RuntimePanic\<close> for a Go run-time panic.
\<close>

datatype error =
    NotFoundError int
  | CallError string
  | MetadataUnavailable string
  | RuntimePanic string

text \<open>
  Modelled from the spec: the metadata types are declared in other files of the package.
  Section 3 of the specification gives the metadata record an id, a name, a description,
  an image reference and a list of attributes; the store returns the document for a
  content URI. \<open>EditionMetadata\<close> and \<open>EditionMetadataOwner\<close> have the fields this
  file writes (the first two fields of \<open>EditionMetadataOwner\<close> are \<open>Metadata\<close> and
  \<open>Supply\<close> in the source). \<open>EditionResult\<close> is the struct of this file.
\<close>

record MetadataDocument =
  DocName :: string
  DocDescription :: string
  DocImage :: string
  DocAttributes :: "string list"

record NFTMetadata =
  Id :: int
  Name :: string
  Description :: string
  Image :: string
  Attributes :: "string list"

record EditionMetadata =
  Metadata :: NFTMetadata
  Supply :: int

record EditionMetadataOwner =
  OwnerMetadata :: NFTMetadata
  OwnerSupply :: int
  Owner :: string
  QuantityOwned :: int

record EditionResult =
  nft :: "EditionMetadata option"
  err :: "error option"

text \<open>
  \<open>types.Transaction\<close> and \<open>bind.TransactOpts\<close> belong to go-ethereum; this package
  only passes them on, and reads the hash of a transaction.
\<close>

datatype Transaction = Transaction (Hash: nat)

datatype TransactOpts = TransactOpts nat

text \<open>
  Every call that leaves the package is recorded, in the order it is made: the reads and
  writes of the contract binding, the wait for a confirmation, the fetch from the
  metadata store, and the line \<open>fmt.Println\<close> writes.
\<close>

datatype call =
    CallTotalSupply int
  | CallNextTokenIdToMint
  | CallBalanceOfBatch "address list" "int list"
  | CallBalanceOf address int
  | CallIsApprovedForAll address address
  | CallUri int
  | CallSafeTransferFrom TransactOpts address address int int
  | CallBurn TransactOpts address int int
  | CallSetApprovalForAll TransactOpts address bool
  | CallAwaitTx nat
  | CallStorageGet string
  | Println error

text \<open>
  The struct \<open>ERC1155\<close> holds the contract wrapper and the storage. Their code is not
  part of this file, so each operation the facade uses is a field: the generated
  binding (\<open>abi_\<close>), the wrapper's own methods, the storage, and the two address
  conversions of go-ethereum (\<open>Address.String\<close> and \<open>HexToAddress\<close>). Chain reads are
  functions of their arguments (the specification's Chain Reader: read-only,
  idempotent).
\<close>

record ERC1155 =
  abi_TotalSupply :: "int \<Rightarrow> error + int"
  abi_NextTokenIdToMint :: "error + int"
  abi_BalanceOfBatch :: "address list \<Rightarrow> int list \<Rightarrow> error + int list"
  abi_BalanceOf :: "address \<Rightarrow> int \<Rightarrow> error + int"
  abi_IsApprovedForAll :: "address \<Rightarrow> address \<Rightarrow> error + bool"
  abi_Uri :: "int \<Rightarrow> error + string"
  abi_SafeTransferFrom :: "TransactOpts \<Rightarrow> address \<Rightarrow> address \<Rightarrow> int \<Rightarrow> int \<Rightarrow> error + Transaction"
  abi_Burn :: "TransactOpts \<Rightarrow> address \<Rightarrow> int \<Rightarrow> int \<Rightarrow> error + Transaction"
  abi_SetApprovalForAll :: "TransactOpts \<Rightarrow> address \<Rightarrow> bool \<Rightarrow> error + Transaction"
  GetSignerAddress :: address
  getTxOptions :: TransactOpts
  awaitTx :: "nat \<Rightarrow> error + Transaction"
  storage_Get :: "string \<Rightarrow> string + MetadataDocument"
  AddressString :: "address \<Rightarrow> string"
  HexToAddress :: "string \<Rightarrow> address"

type_synonym 'a traced = "call list \<times> 'a"

subsection \<open>Resolving one token\<close>

text \<open>
  Modelled from the spec: \<open>fetchTokenMetadata\<close> is called by \<open>getTokenMetadata\<close> but
  is defined in another file of the package. Sections 2, 3 and 4.1 of the specification:
  the content URI is dereferenced through the metadata store; a failure there is a
  store-specific error, distinct from \<open>NotFound\<close>; on success a metadata record is
  assembled whose id is the token id asked for.
\<close>

definition fetchTokenMetadata ::
  "int \<Rightarrow> string \<Rightarrow> (string \<Rightarrow> string + MetadataDocument) \<Rightarrow> (error + NFTMetadata) traced" where
  "fetchTokenMetadata tokenId uri storage =
     ([CallStorageGet uri],
      case storage uri of
        Inl e \<Rightarrow> Inl (MetadataUnavailable e)
      | Inr doc \<Rightarrow>
          Inr \<lparr>Id = tokenId, Name = DocName doc, Description = DocDescription doc,
               Image = DocImage doc, Attributes = DocAttributes doc\<rparr>)"

definition getTokenMetadata :: "ERC1155 \<Rightarrow> int \<Rightarrow> (error + NFTMetadata) traced" where
  "getTokenMetadata erc1155 tokenId =
     (case abi_Uri erc1155 tokenId of
        Inl e \<Rightarrow> ([CallUri tokenId], Inl (NotFoundError tokenId))
      | Inr uri \<Rightarrow>
          (case fetchTokenMetadata tokenId uri (storage_Get erc1155) of
             (t, Inl e) \<Rightarrow> (CallUri tokenId # t, Inl e)
           | (t, Inr n) \<Rightarrow> (CallUri tokenId # t, Inr n)))"

definition Get :: "ERC1155 \<Rightarrow> int \<Rightarrow> (error + EditionMetadata) traced" where
  "Get erc1155 tokenId =
     (let supply = (case abi_TotalSupply erc1155 tokenId of
                      Inr totalSupply \<Rightarrow> Int64 totalSupply
                    | Inl e \<Rightarrow> 0)
      in case getTokenMetadata erc1155 tokenId of
           (t, Inl e) \<Rightarrow> (CallTotalSupply tokenId # t, Inl e)
         | (t, Inr metadata) \<Rightarrow>
             (CallTotalSupply tokenId # t, Inr \<lparr>Metadata = metadata, Supply = supply\<rparr>))"

definition GetTotalCount :: "ERC1155 \<Rightarrow> (error + int) traced" where
  "GetTotalCount erc1155 = ([CallNextTokenIdToMint], abi_NextTokenIdToMint erc1155)"

subsection \<open>The batch resolver\<close>

text \<open>
  \<open>sort.SliceStable\<close> of the Go standard library, as a stable insertion sort: an element
  is placed behind every element that is less than it and in front of the first one
  that is not, so equal elements keep the order they came in.
\<close>

fun insertStable :: "('a \<Rightarrow> 'a \<Rightarrow> bool) \<Rightarrow> 'a \<Rightarrow> 'a list \<Rightarrow> 'a list" where
  "insertStable lt x [] = [x]"
| "insertStable lt x (y # ys) =
     (if lt y x then y # insertStable lt x ys else x # y # ys)"

definition SliceStable :: "('a \<Rightarrow> 'a \<Rightarrow> bool) \<Rightarrow> 'a list \<Rightarrow> 'a list" where
  "SliceStable lt xs = foldr (insertStable lt) xs []"

text \<open>
  One unit of work of the batch resolver, the body of the goroutine: it resolves the id
  it was started with and wraps the outcome; a failure is printed first.
\<close>

definition fetchUnit :: "ERC1155 \<Rightarrow> int \<Rightarrow> EditionResult traced" where
  "fetchUnit erc1155 id' =
     (case Get erc1155 id' of
        (t, Inr n) \<Rightarrow> (t, \<lparr>nft = Some n, err = None\<rparr>)
      | (t, Inl e) \<Rightarrow> (t @ [Println e], \<lparr>nft = None, err = Some e\<rparr>))"

text \<open>
  The goroutines run concurrently and each sends one result on the unbuffered channel;
  the collector receives \<open>total\<close> results. The order in which the units deliver is the
  scheduler's choice and is the parameter \<open>arrival\<close>: the list of unit numbers in the
  order their results are received, a permutation of \<open>[0..<total]\<close>. Unit \<open>i\<close> is
  started with the loop counter \<open>i\<close>. The calls of one unit are kept together in the
  trace, units in the order of delivery; how the calls of different units interleave
  is not modelled.
\<close>

definition fetchEditionsByTokenId ::
  "ERC1155 \<Rightarrow> nat list \<Rightarrow> int list \<Rightarrow> (error + EditionMetadata list) traced" where
  "fetchEditionsByTokenId erc1155 arrival tokenIds =
     (let total = length tokenIds;
          launched = map (\<lambda>i. fetchUnit erc1155 (int i)) [0..<total];
          received = map (\<lambda>k. launched ! k) (take total arrival);
          results = map snd received;
          nfts = map (\<lambda>res. the (nft res)) (filter (\<lambda>res. nft res \<noteq> None) results)
      in (concat (map fst received),
          Inr (SliceStable (\<lambda>a b. Id (Metadata a) < Id (Metadata b)) nfts)))"

definition GetAll :: "ERC1155 \<Rightarrow> nat list \<Rightarrow> (error + EditionMetadata list) traced" where
  "GetAll erc1155 arrival =
     (case GetTotalCount erc1155 of
        (t, Inl e) \<Rightarrow> (t, Inl e)
      | (t, Inr totalCount) \<Rightarrow>
          (let tokenIds = [0 .. Int64 totalCount - 1]
           in case fetchEditionsByTokenId erc1155 arrival tokenIds of
                (t', r) \<Rightarrow> (t @ t', r)))"

subsection \<open>The tokens an address owns\<close>

text \<open>
  The loop of \<open>GetOwned\<close> over the balances of the response, with the index it counts.
  \<open>ids[index]\<close> panics when the response is longer than the list of ids asked for.
\<close>

fun ownedLoop ::
  "ERC1155 \<Rightarrow> string \<Rightarrow> int list \<Rightarrow> nat \<Rightarrow> int list \<Rightarrow> EditionMetadataOwner list
     \<Rightarrow> (error + EditionMetadataOwner list) traced" where
  "ownedLoop erc1155 address ids index [] metadatas = ([], Inr metadatas)"
| "ownedLoop erc1155 address ids index (balance # balances) metadatas =
     (if index < length ids then
        (case Get erc1155 (Int64 (ids ! index)) of
           (t, Inr metadata) \<Rightarrow>
             (let metadataOwner =
                    \<lparr>OwnerMetadata = Metadata metadata, OwnerSupply = Supply metadata,
                     Owner = address, QuantityOwned = Int64 balance\<rparr>
              in case ownedLoop erc1155 address ids (Suc index) balances
                        (metadatas @ [metadataOwner]) of
                   (t', r) \<Rightarrow> (t @ t', r))
         | (t, Inl e) \<Rightarrow>
             (case ownedLoop erc1155 address ids (Suc index) balances metadatas of
                (t', r) \<Rightarrow> (t @ t', r)))
      else ([], Inl (RuntimePanic ''index out of range'')))"

definition GetOwned :: "ERC1155 \<Rightarrow> string \<Rightarrow> (error + EditionMetadataOwner list) traced" where
  "GetOwned erc1155 address =
     (let address' = (if address = [] then AddressString erc1155 (GetSignerAddress erc1155)
                      else address)
      in case abi_NextTokenIdToMint erc1155 of
           Inl e \<Rightarrow> ([CallNextTokenIdToMint], Inl e)
         | Inr maxId \<Rightarrow>
             (let ids = [0 .. Int64 maxId - 1];
                  owners = map (\<lambda>i. HexToAddress erc1155 address') ids
              in case abi_BalanceOfBatch erc1155 owners ids of
                   Inl e \<Rightarrow> ([CallNextTokenIdToMint, CallBalanceOfBatch owners ids], Inl e)
                 | Inr balances \<Rightarrow>
                     (case ownedLoop erc1155 address' ids 0 balances [] of
                        (t, r) \<Rightarrow>
                          (CallNextTokenIdToMint # CallBalanceOfBatch owners ids # t, r))))"

subsection \<open>Reads and writes of one round trip\<close>

definition GetTotalSupply :: "ERC1155 \<Rightarrow> int \<Rightarrow> (error + int) traced" where
  "GetTotalSupply erc1155 tokenId = ([CallTotalSupply tokenId], abi_TotalSupply erc1155 tokenId)"

definition BalanceOf :: "ERC1155 \<Rightarrow> string \<Rightarrow> int \<Rightarrow> (error + int) traced" where
  "BalanceOf erc1155 address tokenId =
     ([CallBalanceOf (HexToAddress erc1155 address) tokenId],
      abi_BalanceOf erc1155 (HexToAddress erc1155 address) tokenId)"

definition Balance :: "ERC1155 \<Rightarrow> int \<Rightarrow> (error + int) traced" where
  "Balance erc1155 tokenId =
     (let address = AddressString erc1155 (GetSignerAddress erc1155)
      in BalanceOf erc1155 address tokenId)"

definition IsApproved :: "ERC1155 \<Rightarrow> string \<Rightarrow> string \<Rightarrow> (error + bool) traced" where
  "IsApproved erc1155 address operator =
     ([CallIsApprovedForAll (HexToAddress erc1155 address) (HexToAddress erc1155 operator)],
      abi_IsApprovedForAll erc1155 (HexToAddress erc1155 address) (HexToAddress erc1155 operator))"

definition Transfer :: "ERC1155 \<Rightarrow> string \<Rightarrow> int \<Rightarrow> int \<Rightarrow> (error + Transaction) traced" where
  "Transfer erc1155 to' tokenId amount =
     (let opts = getTxOptions erc1155;
          sender = GetSignerAddress erc1155;
          submit = CallSafeTransferFrom opts sender (HexToAddress erc1155 to') tokenId amount
      in case abi_SafeTransferFrom erc1155 opts sender (HexToAddress erc1155 to') tokenId amount of
           Inl e \<Rightarrow> ([submit], Inl e)
         | Inr tx \<Rightarrow> ([submit, CallAwaitTx (Hash tx)], awaitTx erc1155 (Hash tx)))"

definition Burn :: "ERC1155 \<Rightarrow> int \<Rightarrow> int \<Rightarrow> (error + Transaction) traced" where
  "Burn erc1155 tokenId amount =
     (let address = GetSignerAddress erc1155;
          opts = getTxOptions erc1155;
          submit = CallBurn opts address tokenId amount
      in case abi_Burn erc1155 opts address tokenId amount of
           Inl e \<Rightarrow> ([submit], Inl e)
         | Inr tx \<Rightarrow> ([submit, CallAwaitTx (Hash tx)], awaitTx erc1155 (Hash tx)))"

definition SetApprovalForAll :: "ERC1155 \<Rightarrow> string \<Rightarrow> bool \<Rightarrow> (error + Transaction) traced" where
  "SetApprovalForAll erc1155 operator approved =
     (let opts = getTxOptions erc1155;
          submit = CallSetApprovalForAll opts (HexToAddress erc1155 operator) approved
      in case abi_SetApprovalForAll erc1155 opts (HexToAddress erc1155 operator) approved of
           Inl e \<Rightarrow> ([submit], Inl e)
         | Inr tx \<Rightarrow> ([submit, CallAwaitTx (Hash tx)], awaitTx erc1155 (Hash tx)))"

section \<open>Package nftlabs: the signer of the ERC-721 module (nftlabs/erc721.go)\<close>

text \<open>
  \<open>NoSignerError\<close> carries the module's type name and the error of the key processing.
  \<open>LibraryError\<close> stands for the errors of the chain client and of the signing library.
\<close>

datatype sdkError =
    NoSignerError string string
  | LibraryError string

record SdkOptions =
  IpfsGatewayUrl :: string

text \<open>
  The fields of the module that its code reads or writes; \<open>privateKey\<close> is a pointer,
  nil until a key is set. The client and the contract binding are in \<open>ethereum\<close> below.
\<close>

record erc721SdkModule =
  Address :: string
  Options :: SdkOptions
  gateway :: string
  privateKey :: "nat option"
  signerAddress :: address

text \<open>
  What the module calls outside this file: the constructor of the contract binding, the
  chain client's \<open>ChainID\<close> (a request to the node), \<open>types.SignTx\<close> with the EIP-155
  signer of a chain id (nil when the request failed) and a key that is there, and
  \<open>processPrivateKey\<close>, which is defined in another file of the package.
\<close>

record ethereum =
  NewERC721 :: "string \<Rightarrow> sdkError + unit"
  ChainID :: "sdkError + int"
  SignTx :: "Transaction \<Rightarrow> int option \<Rightarrow> nat \<Rightarrow> sdkError + Transaction"
  processPrivateKey :: "string \<Rightarrow> string + (nat \<times> address)"

text \<open>A call either returns or ends in a Go run-time panic.\<close>

datatype 'a outcome = Returns 'a | Panics string

datatype netcall = NetChainID


definition SetPrivateKey ::
  "ethereum \<Rightarrow> erc721SdkModule \<Rightarrow> string \<Rightarrow> sdkError option \<times> erc721SdkModule" where
  "SetPrivateKey eth sdk key =
     (case processPrivateKey eth key of
        Inl e \<Rightarrow> (Some (NoSignerError ''erc721'' e), sdk)
      | Inr (pKey, publicAddress) \<Rightarrow>
          (None, sdk\<lparr>privateKey := Some pKey, signerAddress := publicAddress\<rparr>))"

text \<open>
  \<open>getSigner\<close> returns the signing function; the result here is what that function
  does when it is called: the list of requests it sends and how it ends. The function
  has no branch on the key. It asks the node for the chain id, drops the error of that
  request, and calls \<open>types.SignTx\<close> with the module's key pointer. \<open>types.SignTx\<close>
  hashes the transaction and passes the key to \<open>crypto.Sign\<close>, which reads the key's
  fields: with the nil pointer that is a nil dereference, a panic.
\<close>

definition getSigner ::
  "ethereum \<Rightarrow> erc721SdkModule \<Rightarrow> address \<Rightarrow> Transaction
     \<Rightarrow> netcall list \<times> (sdkError + Transaction) outcome" where
  "getSigner eth sdk =
     (\<lambda>address transaction.
        (let chainId = (case ChainID eth of Inr c \<Rightarrow> Some c | Inl e \<Rightarrow> None)
         in ([NetChainID],
             case privateKey sdk of
               None \<Rightarrow> Panics ''invalid memory address or nil pointer dereference''
             | Some pKey \<Rightarrow> Returns (SignTx eth transaction chainId pKey))))"

section \<open>Notions used in the statements\<close>

text \<open>
  The token \<open>tokenId\<close> resolves when \<open>Get\<close> returns metadata for it; \<open>resolved\<close> is
  then that metadata.
\<close>

definition resolves :: "ERC1155 \<Rightarrow> int \<Rightarrow> bool" where
  "resolves erc1155 tokenId =
     (case snd (Get erc1155 tokenId) of Inr n \<Rightarrow> True | Inl e \<Rightarrow> False)"

definition resolved :: "ERC1155 \<Rightarrow> int \<Rightarrow> EditionMetadata" where
  "resolved erc1155 tokenId = projr (snd (Get erc1155 tokenId))"

text \<open>The view of one holder that \<open>GetOwned\<close> builds from resolved metadata and a balance.\<close>

definition ownedItem :: "ERC1155 \<Rightarrow> string \<Rightarrow> int \<times> int \<Rightarrow> EditionMetadataOwner" where
  "ownedItem erc1155 address p =
     \<lparr>OwnerMetadata = Metadata (resolved erc1155 (fst p)),
      OwnerSupply = Supply (resolved erc1155 (fst p)),
      Owner = address, QuantityOwned = Int64 (snd p)\<rparr>"

section \<open>Scenarios\<close>

text \<open>
  A contract with three tokens, 0, 1 and 2, whose content URIs the chain returns; the
  store cannot fetch the document of token 1. Every other id has no token.
\<close>

definition testnet :: ERC1155 where
  "testnet =
     \<lparr>abi_TotalSupply = (\<lambda>i. Inr 10),
      abi_NextTokenIdToMint = Inr 3,
      abi_BalanceOfBatch = (\<lambda>owners ids. Inr (map (\<lambda>i. i + 1) ids)),
      abi_BalanceOf = (\<lambda>a i. Inr 1),
      abi_IsApprovedForAll = (\<lambda>a b. Inr True),
      abi_Uri = (\<lambda>i. if i = 0 then Inr ''ipfs://a''
                     else if i = 1 then Inr ''ipfs://b''
                     else if i = 2 then Inr ''ipfs://c''
                     else Inl (CallError ''execution reverted'')),
      abi_SafeTransferFrom = (\<lambda>opts a b i n. Inr (Transaction 1)),
      abi_Burn = (\<lambda>opts a i n. Inr (Transaction 2)),
      abi_SetApprovalForAll = (\<lambda>opts a b. Inr (Transaction 3)),
      GetSignerAddress = 43981,
      getTxOptions = TransactOpts 0,
      awaitTx = (\<lambda>h. Inr (Transaction h)),
      storage_Get = (\<lambda>uri. if uri = ''ipfs://b'' then Inl ''gateway timeout''
                           else Inr \<lparr>DocName = uri, DocDescription = [], DocImage = [],
                                    DocAttributes = []\<rparr>),
      AddressString = (\<lambda>a. if a = 43981 then ''0xabcd'' else ''0x0''),
      HexToAddress = (\<lambda>s. if s = ''0xabcd'' then 43981 else 0)\<rparr>"

text \<open>The same contract when every URI read fails.\<close>

definition allReverted :: ERC1155 where
  "allReverted = testnet\<lparr>abi_Uri := (\<lambda>i. Inl (CallError ''execution reverted''))\<rparr>"

text \<open>The same contract when the supply read fails.\<close>

definition supplyDown :: ERC1155 where
  "supplyDown = testnet\<lparr>abi_TotalSupply := (\<lambda>i. Inl (CallError ''connection refused''))\<rparr>"

text \<open>The same contract when the binding rejects every write.\<close>

definition writesFail :: ERC1155 where
  "writesFail =
     testnet\<lparr>abi_SafeTransferFrom := (\<lambda>opts a b i n. Inl (CallError ''insufficient funds'')),
             abi_Burn := (\<lambda>opts a i n. Inl (CallError ''insufficient funds'')),
             abi_SetApprovalForAll := (\<lambda>opts a b. Inl (CallError ''insufficient funds''))\<rparr>"

text \<open>A contract with one token, of which the holder owns \<open>2 ^ 63\<close> units.\<close>

definition bigHolder :: ERC1155 where
  "bigHolder = testnet\<lparr>abi_NextTokenIdToMint := Inr 1,
                       abi_BalanceOfBatch := (\<lambda>owners ids. Inr [9223372036854775808])\<rparr>"

text \<open>A contract with one token whose balance query answers with two balances.\<close>

definition longResponse :: ERC1155 where
  "longResponse = testnet\<lparr>abi_NextTokenIdToMint := Inr 1,
                          abi_BalanceOfBatch := (\<lambda>owners ids. Inr [1, 1])\<rparr>"



section \<open>Properties\<close>

subsection \<open>Auxiliary facts\<close>

lemma Int64_id: "- (2 ^ 63) \<le> i \<Longrightarrow> i < 2 ^ 63 \<Longrightarrow> Int64 i = i"
  unfolding Int64_def by (simp add: sint_sbintrunc' signed_take_bit_int_eq_self)

lemma Int64_range: "- (2 ^ 63) \<le> Int64 x \<and> Int64 x < 2 ^ 63"
  unfolding Int64_def
  using sint_ge [of "word_of_int x :: 64 word"] sint_lt [of "word_of_int x :: 64 word"]
  by simp

lemma insertStable_insort_key:
  "insertStable (\<lambda>a b. f a < f b) x ys = insort_key (f :: 'a \<Rightarrow> 'k :: linorder) x ys"
  by (induction ys) (auto simp: not_less)

lemma SliceStable_sort_key:
  "SliceStable (\<lambda>a b. f a < f b) xs = sort_key (f :: 'a \<Rightarrow> 'k :: linorder) xs"
  unfolding SliceStable_def sort_key_def
  by (induction xs) (simp_all add: insertStable_insort_key)

text \<open>Sorting a list whose keys are all different has one possible result.\<close>

lemma sort_key_unique:
  fixes f :: "'a \<Rightarrow> 'k :: linorder"
  assumes "mset xs = mset ys" and "distinct (map f xs)" and "sorted (map f ys)"
  shows "sort_key f xs = ys"
proof -
  have dy: "distinct (map f ys)"
    using assms(1,2) by (metis mset_map mset_eq_imp_distinct_iff)
  have "map f (sort_key f xs) = map f ys"
  proof (rule sorted_distinct_set_unique)
    show "set (map f (sort_key f xs)) = set (map f ys)"
      using assms(1) by (metis mset_eq_setD set_map set_sort)
  qed (use assms dy in \<open>simp_all add: distinct_map\<close>)
  moreover have "inj_on f (set (sort_key f xs) \<union> set ys)"
    using assms(1,2) by (metis distinct_map mset_eq_setD set_sort sup.idem)
  ultimately show ?thesis
    by (simp add: inj_on_map_eq_map)
qed

lemma resolves_iff: "resolves erc1155 tokenId \<longleftrightarrow> (\<exists>n. snd (Get erc1155 tokenId) = Inr n)"
  by (simp add: resolves_def split: sum.splits)

lemma resolves_resolved:
  "resolves erc1155 tokenId \<Longrightarrow> snd (Get erc1155 tokenId) = Inr (resolved erc1155 tokenId)"
  by (auto simp: resolves_iff resolved_def)

lemma getTokenMetadata_Id:
  "snd (getTokenMetadata erc1155 tokenId) = Inr m \<Longrightarrow> Id m = tokenId"
  by (auto simp: getTokenMetadata_def fetchTokenMetadata_def split: sum.splits)

lemma Get_Id:
  "snd (Get erc1155 tokenId) = Inr n \<Longrightarrow> Id (Metadata n) = tokenId"
  using getTokenMetadata_Id [of erc1155 tokenId]
  by (auto simp: Get_def Let_def split: prod.splits sum.splits)

lemma resolved_Id:
  "resolves erc1155 tokenId \<Longrightarrow> Id (Metadata (resolved erc1155 tokenId)) = tokenId"
  by (auto simp: resolves_iff resolved_def dest: Get_Id)

lemma snd_fetchUnit:
  "snd (fetchUnit erc1155 i) =
     (if resolves erc1155 i then \<lparr>nft = Some (resolved erc1155 i), err = None\<rparr>
      else \<lparr>nft = None, err = Some (projl (snd (Get erc1155 i)))\<rparr>)"
  by (auto simp: fetchUnit_def resolves_iff resolved_def split: prod.splits sum.splits)

text \<open>With a permutation as arrival order, the collector receives each unit's result once.\<close>

lemma received_arrival:
  assumes "mset arrival = mset [0..<n]"
  shows "map (\<lambda>k. map g [0..<n] ! k) (take n arrival) = map g arrival"
proof -
  have len: "length arrival = n"
    using assms by (metis length_upt mset_eq_length minus_nat.diff_0)
  have "set arrival = {0..<n}"
    using assms by (metis mset_eq_setD set_upt)
  then have "\<forall>k \<in> set arrival. map g [0..<n] ! k = g k"
    by simp
  then show ?thesis using len by simp
qed

lemma resolved_keys:
  "map (\<lambda>a. Id (Metadata a))
     (map (\<lambda>k. resolved erc1155 (int k)) (filter (\<lambda>k. resolves erc1155 (int k)) zs)) =
   map int (filter (\<lambda>k. resolves erc1155 (int k)) zs)"
  by (induction zs) (simp_all add: resolved_Id)

text \<open>
  The result of the batch resolver, whatever the arrival order: the metadata of the
  unit numbers that resolve, in ascending order.
\<close>

lemma fetch_result:
  assumes "mset arrival = mset [0..<length tokenIds]"
  shows "snd (fetchEditionsByTokenId erc1155 arrival tokenIds) =
           Inr (map (\<lambda>k. resolved erc1155 (int k))
                  (filter (\<lambda>k. resolves erc1155 (int k)) [0..<length tokenIds]))"
proof -
  let ?ok = "\<lambda>k. resolves erc1155 (int k)"
  let ?g = "\<lambda>k. resolved erc1155 (int k)"
  let ?f = "\<lambda>a. Id (Metadata a)"
  let ?xs = "map ?g (filter ?ok arrival)"
  let ?ys = "map ?g (filter ?ok [0..<length tokenIds])"
  have nfts: "map (\<lambda>res. the (nft res))
                (filter (\<lambda>res. nft res \<noteq> None)
                   (map (\<lambda>k. snd (fetchUnit erc1155 (int k))) arrival)) = ?xs"
    by (induction arrival) (simp_all add: snd_fetchUnit)
  have m: "mset ?xs = mset ?ys"
    using assms by (metis mset_filter mset_map)
  have "distinct arrival"
    using assms by (metis distinct_upt mset_eq_imp_distinct_iff)
  then have d: "distinct (map ?f ?xs)"
    unfolding resolved_keys by (simp add: distinct_map)
  have s: "sorted (map ?f ?ys)"
    unfolding resolved_keys by (simp add: sorted_map sorted_wrt_filter)
  have "sort_key ?f ?xs = ?ys"
    using m d s by (rule sort_key_unique)
  then show ?thesis
    unfolding fetchEditionsByTokenId_def Let_def
    by (simp add: received_arrival [OF assms] SliceStable_sort_key nfts comp_def
             del: not_None_eq)
qed

lemma snd_GetAll:
  "abi_NextTokenIdToMint erc1155 = Inr totalCount \<Longrightarrow>
   snd (GetAll erc1155 arrival) =
     snd (fetchEditionsByTokenId erc1155 arrival [0 .. Int64 totalCount - 1])"
  by (simp add: GetAll_def GetTotalCount_def split: prod.splits)

lemma ids_of_batch:
  "map (\<lambda>n. Id (Metadata n))
     (map (\<lambda>k. resolved erc1155 (int k)) (filter (\<lambda>k. resolves erc1155 (int k)) [0..<nat N])) =
   filter (resolves erc1155) [0 .. N - 1]"
proof -
  have upto: "[0 .. N - 1] = map int [0..<nat N]"
    by (rule nth_equalityI) auto
  have "filter (resolves erc1155) (map int [0..<nat N]) =
          map int (filter (\<lambda>k. resolves erc1155 (int k)) [0..<nat N])"
    by (simp add: filter_map comp_def)
  then show ?thesis
    unfolding upto resolved_keys by simp
qed

subsection \<open>The batch resolver\<close>

text \<open>
  Claim C1. For every \<open>N\<close> and every mix of resolving and failing ids, the batch
  resolver, called as \<open>GetAll\<close> calls it on the ids \<open>[0..N)\<close>, returns without an
  error, whatever the order in which the units deliver. The ids of the returned metadata
  are the ids of \<open>[0..N)\<close> that resolve, each once and in strictly ascending order, and
  every returned item is what \<open>Get\<close> returns for its id. \<open>GetAll\<close> returns that
  sequence when the contract reports a count whose 64-bit value is \<open>N\<close>.
\<close>

theorem fetchEditionsByTokenId_ascending_exact:
  assumes "mset arrival = mset [0..<nat N]"
  shows "\<exists>nfts. snd (fetchEditionsByTokenId erc1155 arrival [0 .. N - 1]) = Inr nfts
           \<and> (abi_NextTokenIdToMint erc1155 = Inr totalCount \<and> Int64 totalCount = N
                \<longrightarrow> snd (GetAll erc1155 arrival) = Inr nfts)
           \<and> map (\<lambda>n. Id (Metadata n)) nfts = filter (resolves erc1155) [0 .. N - 1]
           \<and> sorted_wrt (<) (map (\<lambda>n. Id (Metadata n)) nfts)
           \<and> distinct (map (\<lambda>n. Id (Metadata n)) nfts)
           \<and> set (map (\<lambda>n. Id (Metadata n)) nfts) = {i. 0 \<le> i \<and> i < N \<and> resolves erc1155 i}
           \<and> (\<forall>n \<in> set nfts. snd (Get erc1155 (Id (Metadata n))) = Inr n)"
proof -
  let ?nfts = "map (\<lambda>k. resolved erc1155 (int k))
                 (filter (\<lambda>k. resolves erc1155 (int k)) [0..<nat N])"
  let ?ids = "map (\<lambda>n. Id (Metadata n)) ?nfts"
  have arr: "mset arrival = mset [0..<length [0 .. N - 1]]"
    using assms by simp
  have r: "snd (fetchEditionsByTokenId erc1155 arrival [0 .. N - 1]) = Inr ?nfts"
    using fetch_result [OF arr, of erc1155] by simp
  have ids: "?ids = filter (resolves erc1155) [0 .. N - 1]"
    by (rule ids_of_batch)
  have asc: "sorted_wrt (<) ?ids"
    unfolding ids by (simp add: sorted_wrt_filter)
  have dist: "distinct ?ids"
    unfolding ids by simp
  have st: "set ?ids = {i. 0 \<le> i \<and> i < N \<and> resolves erc1155 i}"
    unfolding ids by auto
  have own: "\<forall>n \<in> set ?nfts. snd (Get erc1155 (Id (Metadata n))) = Inr n"
    by (auto simp: resolved_Id resolves_resolved)
  have ga: "abi_NextTokenIdToMint erc1155 = Inr totalCount \<and> Int64 totalCount = N
              \<longrightarrow> snd (GetAll erc1155 arrival) = Inr ?nfts"
    using r by (auto simp: snd_GetAll)
  show ?thesis
    using r ga ids asc dist st own by blast
qed

theorem fetchEditionsByTokenId_ascending_exact_witness:
  "mset [2, 0, 1] = mset [0..<nat 3]
   \<and> abi_NextTokenIdToMint testnet = Inr 3 \<and> Int64 3 = 3
   \<and> map (\<lambda>n. Id (Metadata n)) (projr (snd (GetAll testnet [2, 0, 1]))) = [0, 2]"
proof -
  have h: "mset [2, 0, 1] = mset [0..<nat 3]"
    by code_simp
  have c: "abi_NextTokenIdToMint testnet = Inr 3"
    by (simp add: testnet_def)
  have i: "Int64 3 = 3"
    by (simp add: Int64_def)
  have f: "filter (resolves testnet) [0 .. 3 - 1] = [0, 2]"
    by code_simp
  show ?thesis
    using fetchEditionsByTokenId_ascending_exact [OF h, of testnet 3] h c i f
    by auto
qed


text \<open>
  Claim C4. A batch request for no token ids returns the empty sequence and no error,
  and makes no call: no unit is started, so nothing is resolved, read, fetched or
  printed, whatever the scheduler would do.
\<close>

theorem fetchEditionsByTokenId_empty:
  "fetchEditionsByTokenId erc1155 arrival [] = ([], Inr [])"
  by (simp add: fetchEditionsByTokenId_def SliceStable_def)

text \<open>
  Claim C5. Two runs of the batch resolver on the same ids against the same contract and
  store, whose units deliver in different orders, return the same sequence, and its ids
  ascend strictly.
\<close>

theorem fetchEditionsByTokenId_order_independent:
  assumes "mset arrival1 = mset [0..<length tokenIds]"
      and "mset arrival2 = mset [0..<length tokenIds]"
  shows "snd (fetchEditionsByTokenId erc1155 arrival1 tokenIds) =
           snd (fetchEditionsByTokenId erc1155 arrival2 tokenIds)
         \<and> sorted_wrt (<)
             (map (\<lambda>n. Id (Metadata n))
                (projr (snd (fetchEditionsByTokenId erc1155 arrival1 tokenIds))))"
proof -
  have "sorted_wrt (<) (map int (filter (\<lambda>k. resolves erc1155 (int k)) [0..<length tokenIds]))"
    by (simp add: sorted_wrt_map sorted_wrt_filter)
  then have "sorted_wrt (<)
               (map (\<lambda>n. Id (Metadata n))
                  (map (\<lambda>k. resolved erc1155 (int k))
                     (filter (\<lambda>k. resolves erc1155 (int k)) [0..<length tokenIds])))"
    unfolding resolved_keys .
  then show ?thesis
    unfolding fetch_result [OF assms(1)] fetch_result [OF assms(2)] sum.sel
    by (rule conjI [OF refl])
qed

theorem fetchEditionsByTokenId_order_independent_witness:
  "mset [2, 0, 1] = mset [0..<length [0, 1, 2 :: int]]
   \<and> mset [1, 2, 0] = mset [0..<length [0, 1, 2 :: int]]
   \<and> snd (fetchEditionsByTokenId testnet [2, 0, 1] [0, 1, 2]) =
       snd (fetchEditionsByTokenId testnet [1, 2, 0] [0, 1, 2])
   \<and> fst (fetchEditionsByTokenId testnet [2, 0, 1] [0, 1, 2]) \<noteq>
       fst (fetchEditionsByTokenId testnet [1, 2, 0] [0, 1, 2])"
proof -
  have h1: "mset [2, 0, 1] = mset [0..<length [0, 1, 2 :: int]]"
    by code_simp
  have h2: "mset [1, 2, 0] = mset [0..<length [0, 1, 2 :: int]]"
    by code_simp
  have t: "fst (fetchEditionsByTokenId testnet [2, 0, 1] [0, 1, 2]) \<noteq>
             fst (fetchEditionsByTokenId testnet [1, 2, 0] [0, 1, 2])"
    by code_simp
  show ?thesis
    using fetchEditionsByTokenId_order_independent [OF h1 h2, of testnet] h1 h2 t
    by simp
qed

text \<open>
  On the batches \<open>GetAll\<close> builds, the ids \<open>[0..N)\<close>, a batch none of whose ids
  resolves gives the empty sequence and no error. \<open>GetAll\<close> returns an error exactly
  when the read of the token count fails, and then it is that error; no failure of a
  resolution makes it fail.
\<close>

lemma GetAll_error_only_from_count:
  assumes "mset arrival = mset [0..<nat N]"
  shows "((\<forall>i. 0 \<le> i \<and> i < N \<longrightarrow> \<not> resolves erc1155 i)
            \<longrightarrow> snd (fetchEditionsByTokenId erc1155 arrival [0 .. N - 1]) = Inr [])
         \<and> (snd (GetAll erc1155 arrival') = Inl e \<longleftrightarrow> abi_NextTokenIdToMint erc1155 = Inl e)
         \<and> (abi_NextTokenIdToMint erc1155 = Inr totalCount \<and> Int64 totalCount = N
              \<and> (\<forall>i. 0 \<le> i \<and> i < N \<longrightarrow> \<not> resolves erc1155 i)
            \<longrightarrow> snd (GetAll erc1155 arrival) = Inr [])"
proof -
  have arr: "mset arrival = mset [0..<length [0 .. N - 1]]"
    using assms by simp
  have none: "snd (fetchEditionsByTokenId erc1155 arrival [0 .. N - 1]) = Inr []"
    if "\<forall>i. 0 \<le> i \<and> i < N \<longrightarrow> \<not> resolves erc1155 i"
  proof -
    have "filter (\<lambda>k. resolves erc1155 (int k)) [0..<nat N] = []"
      using that by (auto simp: filter_empty_conv)
    then show ?thesis
      using fetch_result [OF arr, of erc1155] by simp
  qed
  have err: "snd (GetAll erc1155 arrival') = Inl e \<longleftrightarrow> abi_NextTokenIdToMint erc1155 = Inl e"
    by (cases "abi_NextTokenIdToMint erc1155")
       (simp_all add: GetAll_def GetTotalCount_def fetchEditionsByTokenId_def Let_def)
  show ?thesis
    using none err by (auto simp: snd_GetAll)
qed

lemma GetAll_error_only_from_count_example:
  "mset [1, 2, 0] = mset [0..<nat 3]
   \<and> abi_NextTokenIdToMint allReverted = Inr 3 \<and> Int64 3 = 3
   \<and> \<not> resolves allReverted 0 \<and> \<not> resolves allReverted 1 \<and> \<not> resolves allReverted 2
   \<and> snd (GetAll allReverted [1, 2, 0]) = Inr []"
proof -
  have h: "mset [1, 2, 0] = mset [0..<nat 3]"
    by code_simp
  have c: "abi_NextTokenIdToMint allReverted = Inr 3"
    by (simp add: allReverted_def testnet_def)
  have i: "Int64 3 = 3"
    by (simp add: Int64_def)
  have n: "\<not> resolves allReverted j" for j
    by (simp add: resolves_def Get_def getTokenMetadata_def allReverted_def)
  show ?thesis
    using GetAll_error_only_from_count [OF h, of allReverted "[1, 2, 0]" _ 3] h c i n
    by simp
qed

text \<open>
  Claim C3 at the batch \<open>[7]\<close>. There is no token 7, so every id of the batch fails
  resolution, and the claim asks for the empty sequence. The one unit of the batch is
  started with the loop counter 0 and resolves token 0: the batch returns the metadata
  of token 0.
\<close>

theorem fetchEditionsByTokenId_all_fail_not_empty:
  "snd (Get testnet 7) = Inl (NotFoundError 7)
   \<and> fetchEditionsByTokenId testnet [0] [7] =
       ([CallTotalSupply 0, CallUri 0, CallStorageGet ''ipfs://a''],
        Inr [\<lparr>Metadata = \<lparr>Id = 0, Name = ''ipfs://a'', Description = [], Image = [],
                           Attributes = []\<rparr>,
              Supply = 10\<rparr>])"
  by (simp add: fetchEditionsByTokenId_def fetchUnit_def Get_def getTokenMetadata_def
        fetchTokenMetadata_def testnet_def SliceStable_def Int64_def)


text \<open>
  A unit whose resolution fails prints the error and still delivers a result, which
  carries the error and no metadata.
\<close>

lemma fetchUnit_failure_logged:
  "snd (Get erc1155 i) = Inl e \<Longrightarrow>
   fetchUnit erc1155 i = (fst (Get erc1155 i) @ [Println e], \<lparr>nft = None, err = Some e\<rparr>)"
  by (auto simp: fetchUnit_def split: prod.splits sum.splits)

text \<open>The batch resolver reads the number of ids it is given and nothing else of them.\<close>

lemma fetchEditionsByTokenId_length_only:
  "length tokenIds = length tokenIds' \<Longrightarrow>
   fetchEditionsByTokenId erc1155 arrival tokenIds =
     fetchEditionsByTokenId erc1155 arrival tokenIds'"
  by (simp add: fetchEditionsByTokenId_def)

text \<open>
  Claim C2 at the input \<open>[2]\<close>. The one unit of the batch is started with the loop
  counter 0, not with the id 2 of the input: it reads the supply and the URI of token 0,
  fetches the document of token 0, and the batch returns the metadata of token 0.
\<close>

theorem fetchEditionsByTokenId_resolves_loop_counter:
  "fetchEditionsByTokenId testnet [0] [2] =
     ([CallTotalSupply 0, CallUri 0, CallStorageGet ''ipfs://a''],
      Inr [\<lparr>Metadata = \<lparr>Id = 0, Name = ''ipfs://a'', Description = [], Image = [],
                         Attributes = []\<rparr>,
            Supply = 10\<rparr>])"
  by (simp add: fetchEditionsByTokenId_def fetchUnit_def Get_def getTokenMetadata_def
        fetchTokenMetadata_def testnet_def SliceStable_def Int64_def)

subsection \<open>Resolving one token\<close>

text \<open>
  Claim C6. When the read of the content URI fails, with whatever error,
  \<open>getTokenMetadata\<close> fails with \<open>NotFoundError\<close> of the token id, and the store is not
  asked. When the read succeeds and the store fails, \<open>getTokenMetadata\<close> returns the
  error of \<open>fetchTokenMetadata\<close> as it is: the store's error, which is not a
  \<open>NotFoundError\<close>.
\<close>

theorem getTokenMetadata_errors:
  "(abi_Uri erc1155 tokenId = Inl e
      \<longrightarrow> getTokenMetadata erc1155 tokenId = ([CallUri tokenId], Inl (NotFoundError tokenId)))
   \<and> (abi_Uri erc1155 tokenId = Inr uri \<and> storage_Get erc1155 uri = Inl se
        \<longrightarrow> snd (getTokenMetadata erc1155 tokenId) =
              snd (fetchTokenMetadata tokenId uri (storage_Get erc1155))
          \<and> snd (getTokenMetadata erc1155 tokenId) = Inl (MetadataUnavailable se)
          \<and> snd (getTokenMetadata erc1155 tokenId) \<noteq> Inl (NotFoundError tokenId'))"
  by (simp add: getTokenMetadata_def fetchTokenMetadata_def)

theorem getTokenMetadata_errors_witness:
  "abi_Uri testnet 7 = Inl (CallError ''execution reverted'')
   \<and> getTokenMetadata testnet 7 = ([CallUri 7], Inl (NotFoundError 7))
   \<and> abi_Uri testnet 1 = Inr ''ipfs://b''
   \<and> storage_Get testnet ''ipfs://b'' = Inl ''gateway timeout''
   \<and> snd (getTokenMetadata testnet 1) = Inl (MetadataUnavailable ''gateway timeout'')"
proof -
  have u7: "abi_Uri testnet 7 = Inl (CallError ''execution reverted'')"
    by (simp add: testnet_def)
  have u1: "abi_Uri testnet 1 = Inr ''ipfs://b''"
    by (simp add: testnet_def)
  have s1: "storage_Get testnet ''ipfs://b'' = Inl ''gateway timeout''"
    by (simp add: testnet_def)
  have a: "getTokenMetadata testnet 7 = ([CallUri 7], Inl (NotFoundError 7))"
    using getTokenMetadata_errors
            [of testnet 7 "CallError ''execution reverted''"]
      u7
    by blast
  have b: "snd (getTokenMetadata testnet 1) = Inl (MetadataUnavailable ''gateway timeout'')"
    using getTokenMetadata_errors
            [of testnet 1 _ "''ipfs://b''" "''gateway timeout''"]
      u1 s1
    by blast
  show ?thesis
    using u7 u1 s1 a b by blast
qed

text \<open>
  Claim C7 fails for \<open>Get\<close>: on a contract whose supply read fails, \<open>Get\<close> of token 0
  goes on to read the URI and fetch the document, and returns the metadata with
  supply 0 and no error.
\<close>

theorem Get_supply_error_swallowed:
  "abi_TotalSupply supplyDown 0 = Inl (CallError ''connection refused'')
   \<and> Get supplyDown 0 =
       ([CallTotalSupply 0, CallUri 0, CallStorageGet ''ipfs://a''],
        Inr \<lparr>Metadata = \<lparr>Id = 0, Name = ''ipfs://a'', Description = [], Image = [],
                          Attributes = []\<rparr>,
             Supply = 0\<rparr>)"
  by (simp add: Get_def getTokenMetadata_def fetchTokenMetadata_def supplyDown_def testnet_def)

lemma Get_fails_iff:
  "snd (Get erc1155 tokenId) = Inl e \<longleftrightarrow> snd (getTokenMetadata erc1155 tokenId) = Inl e"
  by (auto simp: Get_def Let_def split: prod.splits sum.splits)

lemma Get_trace:
  "fst (Get erc1155 tokenId) = CallTotalSupply tokenId # fst (getTokenMetadata erc1155 tokenId)"
  by (auto simp: Get_def Let_def split: prod.splits sum.splits)

lemma Get_supply_default:
  "abi_TotalSupply erc1155 tokenId = Inl e' \<Longrightarrow>
   snd (getTokenMetadata erc1155 tokenId) = Inr m \<Longrightarrow>
   snd (Get erc1155 tokenId) = Inr \<lparr>Metadata = m, Supply = 0\<rparr>"
  by (auto simp: Get_def Let_def split: prod.splits sum.splits)

lemma getTokenMetadata_store_error:
  "abi_Uri erc1155 tokenId = Inr uri \<Longrightarrow> storage_Get erc1155 uri = Inl se \<Longrightarrow>
   getTokenMetadata erc1155 tokenId =
     ([CallUri tokenId, CallStorageGet uri], Inl (MetadataUnavailable se))"
  by (simp add: getTokenMetadata_def fetchTokenMetadata_def)

lemma Transfer_submit_error:
  "abi_SafeTransferFrom erc1155 (getTxOptions erc1155) (GetSignerAddress erc1155)
     (HexToAddress erc1155 to') tokenId amount = Inl e \<Longrightarrow>
   Transfer erc1155 to' tokenId amount =
     ([CallSafeTransferFrom (getTxOptions erc1155) (GetSignerAddress erc1155)
         (HexToAddress erc1155 to') tokenId amount], Inl e)"
  by (simp add: Transfer_def)

lemma Burn_submit_error:
  "abi_Burn erc1155 (getTxOptions erc1155) (GetSignerAddress erc1155) tokenId amount = Inl e \<Longrightarrow>
   Burn erc1155 tokenId amount =
     ([CallBurn (getTxOptions erc1155) (GetSignerAddress erc1155) tokenId amount], Inl e)"
  by (simp add: Burn_def)

lemma SetApprovalForAll_submit_error:
  "abi_SetApprovalForAll erc1155 (getTxOptions erc1155) (HexToAddress erc1155 operator)
     approved = Inl e \<Longrightarrow>
   SetApprovalForAll erc1155 operator approved =
     ([CallSetApprovalForAll (getTxOptions erc1155) (HexToAddress erc1155 operator) approved],
      Inl e)"
  by (simp add: SetApprovalForAll_def)

text \<open>
  Claim C7 as amended. \<open>Get\<close> does not surface a failure of its first read, the supply:
  it takes the supply as 0 and goes on to resolve the metadata, and it fails exactly
  when that resolution fails, with its error. Every other single-item operation surfaces
  its first error at once: the metadata resolver stops at a failed URI read (as
  \<open>NotFoundError\<close>) and at a failed store fetch; the count, supply, balance and approval
  reads return what the binding returns; a transfer, a burn and an approval whose
  submission fails return that error without waiting for a confirmation.
\<close>

theorem single_item_error_propagation:
  "(snd (Get erc1155 tokenId) = Inl e \<longleftrightarrow> snd (getTokenMetadata erc1155 tokenId) = Inl e)
   \<and> fst (Get erc1155 tokenId) = CallTotalSupply tokenId # fst (getTokenMetadata erc1155 tokenId)
   \<and> (abi_TotalSupply erc1155 tokenId = Inl e' \<and> snd (getTokenMetadata erc1155 tokenId) = Inr m
        \<longrightarrow> snd (Get erc1155 tokenId) = Inr \<lparr>Metadata = m, Supply = 0\<rparr>)
   \<and> (abi_Uri erc1155 tokenId = Inl e'
        \<longrightarrow> getTokenMetadata erc1155 tokenId = ([CallUri tokenId], Inl (NotFoundError tokenId)))
   \<and> (abi_Uri erc1155 tokenId = Inr uri \<and> storage_Get erc1155 uri = Inl se
        \<longrightarrow> getTokenMetadata erc1155 tokenId =
              ([CallUri tokenId, CallStorageGet uri], Inl (MetadataUnavailable se)))
   \<and> snd (GetTotalCount erc1155) = abi_NextTokenIdToMint erc1155
   \<and> snd (GetTotalSupply erc1155 tokenId) = abi_TotalSupply erc1155 tokenId
   \<and> snd (BalanceOf erc1155 address tokenId) =
       abi_BalanceOf erc1155 (HexToAddress erc1155 address) tokenId
   \<and> Balance erc1155 tokenId =
       BalanceOf erc1155 (AddressString erc1155 (GetSignerAddress erc1155)) tokenId
   \<and> snd (IsApproved erc1155 address operator) =
       abi_IsApprovedForAll erc1155 (HexToAddress erc1155 address) (HexToAddress erc1155 operator)
   \<and> (abi_SafeTransferFrom erc1155 (getTxOptions erc1155) (GetSignerAddress erc1155)
          (HexToAddress erc1155 to') tokenId amount = Inl e'
        \<longrightarrow> Transfer erc1155 to' tokenId amount =
              ([CallSafeTransferFrom (getTxOptions erc1155) (GetSignerAddress erc1155)
                  (HexToAddress erc1155 to') tokenId amount], Inl e'))
   \<and> (abi_Burn erc1155 (getTxOptions erc1155) (GetSignerAddress erc1155) tokenId amount = Inl e'
        \<longrightarrow> Burn erc1155 tokenId amount =
              ([CallBurn (getTxOptions erc1155) (GetSignerAddress erc1155) tokenId amount],
               Inl e'))
   \<and> (abi_SetApprovalForAll erc1155 (getTxOptions erc1155) (HexToAddress erc1155 operator)
          approved = Inl e'
        \<longrightarrow> SetApprovalForAll erc1155 operator approved =
              ([CallSetApprovalForAll (getTxOptions erc1155) (HexToAddress erc1155 operator)
                  approved], Inl e'))"
  using Get_fails_iff [of erc1155 tokenId e] Get_trace [of erc1155 tokenId]
    Get_supply_default [of erc1155 tokenId e' m]
    getTokenMetadata_store_error [of erc1155 tokenId uri se]
    Transfer_submit_error [of erc1155 to' tokenId amount e']
    Burn_submit_error [of erc1155 tokenId amount e']
    SetApprovalForAll_submit_error [of erc1155 operator approved e']
  by (simp add: getTokenMetadata_def [of erc1155 tokenId] GetTotalCount_def GetTotalSupply_def
        BalanceOf_def Balance_def IsApproved_def Let_def)


theorem single_item_error_propagation_witness:
  "abi_TotalSupply supplyDown 0 = Inl (CallError ''connection refused'')
   \<and> snd (getTokenMetadata supplyDown 0) =
       Inr \<lparr>Id = 0, Name = ''ipfs://a'', Description = [], Image = [], Attributes = []\<rparr>
   \<and> snd (Get supplyDown 0) =
       Inr \<lparr>Metadata = \<lparr>Id = 0, Name = ''ipfs://a'', Description = [], Image = [],
                         Attributes = []\<rparr>,
            Supply = 0\<rparr>
   \<and> abi_Uri testnet 7 = Inl (CallError ''execution reverted'')
   \<and> snd (Get testnet 7) = Inl (NotFoundError 7)
   \<and> abi_Uri testnet 1 = Inr ''ipfs://b''
   \<and> storage_Get testnet ''ipfs://b'' = Inl ''gateway timeout''
   \<and> snd (Get testnet 1) = Inl (MetadataUnavailable ''gateway timeout'')
   \<and> abi_SafeTransferFrom writesFail (getTxOptions writesFail) (GetSignerAddress writesFail)
        (HexToAddress writesFail ''0xabcd'') 1 1 = Inl (CallError ''insufficient funds'')
   \<and> Transfer writesFail ''0xabcd'' 1 1 =
       ([CallSafeTransferFrom (TransactOpts 0) 43981 43981 1 1],
        Inl (CallError ''insufficient funds''))
   \<and> abi_Burn writesFail (getTxOptions writesFail) (GetSignerAddress writesFail) 1 1 =
       Inl (CallError ''insufficient funds'')
   \<and> Burn writesFail 1 1 =
       ([CallBurn (TransactOpts 0) 43981 1 1], Inl (CallError ''insufficient funds''))
   \<and> abi_SetApprovalForAll writesFail (getTxOptions writesFail)
        (HexToAddress writesFail ''0xabcd'') True = Inl (CallError ''insufficient funds'')
   \<and> SetApprovalForAll writesFail ''0xabcd'' True =
       ([CallSetApprovalForAll (TransactOpts 0) 43981 True],
        Inl (CallError ''insufficient funds''))"
proof -
  let ?md = "\<lparr>Id = 0, Name = ''ipfs://a'', Description = [], Image = [], Attributes = []\<rparr>"
  have s0: "abi_TotalSupply supplyDown 0 = Inl (CallError ''connection refused'')"
    by (simp add: supplyDown_def)
  have m0: "snd (getTokenMetadata supplyDown 0) = Inr ?md"
    by (simp add: getTokenMetadata_def fetchTokenMetadata_def supplyDown_def testnet_def)
  have g0: "snd (Get supplyDown 0) = Inr \<lparr>Metadata = ?md, Supply = 0\<rparr>"
    using single_item_error_propagation
            [of supplyDown 0 _ "CallError ''connection refused''" ?md] s0 m0
    by blast
  have u7: "abi_Uri testnet 7 = Inl (CallError ''execution reverted'')"
    by (simp add: testnet_def)
  have g7: "snd (Get testnet 7) = Inl (NotFoundError 7)"
    using single_item_error_propagation
            [of testnet 7 "NotFoundError 7" "CallError ''execution reverted''"] u7
    by simp
  have u1: "abi_Uri testnet 1 = Inr ''ipfs://b''"
    by (simp add: testnet_def)
  have s1: "storage_Get testnet ''ipfs://b'' = Inl ''gateway timeout''"
    by (simp add: testnet_def)
  have g1: "snd (Get testnet 1) = Inl (MetadataUnavailable ''gateway timeout'')"
    using single_item_error_propagation
            [of testnet 1 "MetadataUnavailable ''gateway timeout''" _ _ "''ipfs://b''"
               "''gateway timeout''"] u1 s1
    by simp
  have w: "getTxOptions writesFail = TransactOpts 0" "GetSignerAddress writesFail = 43981"
    "HexToAddress writesFail ''0xabcd'' = 43981"
    by (simp_all add: writesFail_def testnet_def)
  have t: "abi_SafeTransferFrom writesFail (getTxOptions writesFail) (GetSignerAddress writesFail)
             (HexToAddress writesFail ''0xabcd'') 1 1 = Inl (CallError ''insufficient funds'')"
    by (simp add: writesFail_def)
  have b: "abi_Burn writesFail (getTxOptions writesFail) (GetSignerAddress writesFail) 1 1 =
             Inl (CallError ''insufficient funds'')"
    by (simp add: writesFail_def)
  have a: "abi_SetApprovalForAll writesFail (getTxOptions writesFail)
             (HexToAddress writesFail ''0xabcd'') True = Inl (CallError ''insufficient funds'')"
    by (simp add: writesFail_def)
  have wr: "Transfer writesFail ''0xabcd'' 1 1 =
              ([CallSafeTransferFrom (TransactOpts 0) 43981 43981 1 1],
               Inl (CallError ''insufficient funds''))
            \<and> Burn writesFail 1 1 =
              ([CallBurn (TransactOpts 0) 43981 1 1], Inl (CallError ''insufficient funds''))
            \<and> SetApprovalForAll writesFail ''0xabcd'' True =
              ([CallSetApprovalForAll (TransactOpts 0) 43981 True],
               Inl (CallError ''insufficient funds''))"
    using single_item_error_propagation
            [of writesFail 1 _ "CallError ''insufficient funds''" _ _ _ _ "''0xabcd''"
               "''0xabcd''" 1 True] t b a
    unfolding w by blast
  show ?thesis
    using s0 m0 g0 u7 g7 u1 s1 g1 t b a wr by blast
qed


subsection \<open>The tokens an address owns\<close>

lemma Get_cases:
  "Get erc1155 i = (fst (Get erc1155 i),
     if resolves erc1155 i then Inr (resolved erc1155 i) else Inl (projl (snd (Get erc1155 i))))"
proof (cases "Get erc1155 i")
  case (Pair t r)
  then show ?thesis
    by (cases r) (simp_all add: resolves_def resolved_def)
qed

lemma snd_append_trace: "snd (case p of (t', r) \<Rightarrow> (t @ t', r)) = snd p"
  by (cases p) simp

lemma ownedLoop_result:
  assumes "index + length balances \<le> length ids"
      and "\<forall>k < length ids. Int64 (ids ! k) = ids ! k"
  shows "snd (ownedLoop erc1155 address ids index balances acc) =
           Inr (acc @ map (ownedItem erc1155 address)
                        (filter (\<lambda>p. resolves erc1155 (fst p)) (zip (drop index ids) balances)))"
  using assms
proof (induction balances arbitrary: index acc)
  case Nil
  then show ?case by simp
next
  case (Cons balance balances)
  then have lt: "index < length ids" and le: "Suc index + length balances \<le> length ids"
    by simp_all
  have d: "drop index ids = ids ! index # drop (Suc index) ids"
    using lt by (simp add: Cons_nth_drop_Suc)
  have i: "Int64 (ids ! index) = ids ! index"
    using Cons.prems(2) lt by simp
  note IH = Cons.IH [OF le Cons.prems(2)]
  show ?case
  proof (cases "resolves erc1155 (ids ! index)")
    case True
    then show ?thesis
      using lt
      by (subst ownedLoop.simps, subst Get_cases)
         (simp add: i d IH ownedItem_def snd_append_trace)
  next
    case False
    then show ?thesis
      using lt
      by (subst ownedLoop.simps, subst Get_cases)
         (simp add: i d IH snd_append_trace)
  qed
qed

lemma ownedLoop_Owner:
  "snd (ownedLoop erc1155 address ids index balances acc) = Inr items \<Longrightarrow>
   \<forall>m \<in> set acc. Owner m = address \<Longrightarrow> \<forall>m \<in> set items. Owner m = address"
proof (induction balances arbitrary: index acc)
  case Nil
  then show ?case by simp
next
  case (Cons balance balances)
  show ?case
  proof (cases "index < length ids")
    case False
    then show ?thesis using Cons.prems by simp
  next
    case True
    show ?thesis
    proof (cases "resolves erc1155 (Int64 (ids ! index))")
      case r: True
      let ?item = "\<lparr>OwnerMetadata = Metadata (resolved erc1155 (Int64 (ids ! index))),
                     OwnerSupply = Supply (resolved erc1155 (Int64 (ids ! index))),
                     Owner = address, QuantityOwned = Int64 balance\<rparr>"
      have "snd (ownedLoop erc1155 address ids (Suc index) balances (acc @ [?item])) = Inr items"
        using Cons.prems(1) True r
        by (subst (asm) ownedLoop.simps, subst (asm) Get_cases) (simp add: snd_append_trace)
      then show ?thesis
        using Cons.IH [of "Suc index" "acc @ [?item]"] Cons.prems(2) by simp
    next
      case r: False
      have "snd (ownedLoop erc1155 address ids (Suc index) balances acc) = Inr items"
        using Cons.prems(1) True r
        by (subst (asm) ownedLoop.simps, subst (asm) Get_cases) (simp add: snd_append_trace)
      then show ?thesis
        using Cons.IH [of "Suc index" acc] Cons.prems(2) by simp
    qed
  qed
qed

lemma ids_in_range:
  "\<forall>k < length [0 .. Int64 maxId - 1]. Int64 ([0 .. Int64 maxId - 1] ! k) = [0 .. Int64 maxId - 1] ! k"
proof (intro allI impI)
  fix k assume "k < length [0 .. Int64 maxId - 1]"
  then have k: "int k < Int64 maxId" by simp
  then have "[0 .. Int64 maxId - 1] ! k = int k" by simp
  moreover have "Int64 (int k) = int k"
    using k Int64_range [of maxId] by (intro Int64_id) auto
  ultimately show "Int64 ([0 .. Int64 maxId - 1] ! k) = [0 .. Int64 maxId - 1] ! k" by simp
qed

lemma GetOwned_unfold:
  assumes "abi_NextTokenIdToMint erc1155 = Inr maxId"
      and "abi_BalanceOfBatch erc1155
             (map (\<lambda>i. HexToAddress erc1155 owner) [0 .. Int64 maxId - 1])
             [0 .. Int64 maxId - 1] = Inr balances"
      and "owner = (if address = [] then AddressString erc1155 (GetSignerAddress erc1155)
                    else address)"
  shows "snd (GetOwned erc1155 address) =
           snd (ownedLoop erc1155 owner [0 .. Int64 maxId - 1] 0 balances [])"
  using assms by (simp add: GetOwned_def Let_def split: prod.splits)


text \<open>
  Claim C8 fails where it equates the quantity with the balance: the balance goes
  through \<open>Int64\<close>. For a holder of \<open>2 ^ 63\<close> units the returned quantity is
  \<open>- 2 ^ 63\<close>.
\<close>

theorem GetOwned_quantity_wraps:
  "abi_NextTokenIdToMint bigHolder = Inr 1
   \<and> abi_BalanceOfBatch bigHolder [HexToAddress bigHolder ''0xabcd''] [0] =
       Inr [9223372036854775808]
   \<and> map QuantityOwned (projr (snd (GetOwned bigHolder ''0xabcd''))) =
       [- 9223372036854775808]"
  by (simp add: GetOwned_def Get_def getTokenMetadata_def fetchTokenMetadata_def
        bigHolder_def testnet_def Int64_def)

text \<open>A response with more balances than ids were asked for ends in a panic.\<close>

lemma GetOwned_long_response_panics:
  "snd (GetOwned longResponse ''0xabcd'') = Inl (RuntimePanic ''index out of range'')"
  by (simp add: GetOwned_def Get_def getTokenMetadata_def fetchTokenMetadata_def
        longResponse_def testnet_def Int64_def)

text \<open>
  Claim C8 as amended. When the count and the balances are read and the response has no
  more balances than ids were asked for, \<open>GetOwned\<close> returns, for every address, one item
  per balance of the response whose id resolves, in the order of the response; ids that
  do not resolve are skipped. The owner of each item is the address (the signer's for
  the empty string) and its quantity is the balance as a signed 64-bit value: the
  balance itself when it is below \<open>2 ^ 63\<close>.
\<close>

theorem GetOwned_follows_response:
  assumes "abi_NextTokenIdToMint erc1155 = Inr maxId"
      and "abi_BalanceOfBatch erc1155
             (map (\<lambda>i. HexToAddress erc1155 owner) [0 .. Int64 maxId - 1])
             [0 .. Int64 maxId - 1] = Inr balances"
      and "owner = (if address = [] then AddressString erc1155 (GetSignerAddress erc1155)
                    else address)"
      and "length balances \<le> nat (Int64 maxId)"
  shows "snd (GetOwned erc1155 address) =
           Inr (map (ownedItem erc1155 owner)
                  (filter (\<lambda>p. resolves erc1155 (fst p)) (zip [0 .. Int64 maxId - 1] balances)))
         \<and> ((\<forall>b \<in> set balances. - (2 ^ 63) \<le> b \<and> b < 2 ^ 63)
              \<longrightarrow> map QuantityOwned (projr (snd (GetOwned erc1155 address))) =
                    map snd (filter (\<lambda>p. resolves erc1155 (fst p))
                               (zip [0 .. Int64 maxId - 1] balances)))"
proof -
  let ?ids = "[0 .. Int64 maxId - 1]"
  let ?kept = "filter (\<lambda>p. resolves erc1155 (fst p)) (zip ?ids balances)"
  have len: "0 + length balances \<le> length ?ids"
    using assms(4) by simp
  have "snd (ownedLoop erc1155 owner ?ids 0 balances []) =
          Inr ([] @ map (ownedItem erc1155 owner)
                 (filter (\<lambda>p. resolves erc1155 (fst p)) (zip (drop 0 ?ids) balances)))"
    using len ids_in_range by (rule ownedLoop_result)
  then have r: "snd (GetOwned erc1155 address) = Inr (map (ownedItem erc1155 owner) ?kept)"
    unfolding GetOwned_unfold [OF assms(1-3)] by simp
  have q: "map QuantityOwned (map (ownedItem erc1155 owner) ?kept) = map snd ?kept"
    if rng: "\<forall>b \<in> set balances. - (2 ^ 63) \<le> b \<and> b < 2 ^ 63"
  proof -
    have "Int64 (snd p) = snd p" if "p \<in> set ?kept" for p
    proof -
      have "p \<in> set (zip ?ids balances)"
        using that by simp
      then have "snd p \<in> set balances"
        by (metis prod.collapse set_zip_rightD)
      then have "- (2 ^ 63) \<le> snd p" and "snd p < 2 ^ 63"
        using rng by blast+
      then show ?thesis
        by (rule Int64_id)
    qed
    then have e: "map (\<lambda>p. Int64 (snd p)) ?kept = map snd ?kept"
      by (simp only: map_eq_conv) blast
    have "map QuantityOwned (map (ownedItem erc1155 owner) ?kept) =
            map (\<lambda>p. Int64 (snd p)) ?kept"
      by (simp add: ownedItem_def comp_def)
    then show ?thesis
      by (simp only: e)
  qed
  have "map QuantityOwned (projr (snd (GetOwned erc1155 address))) = map snd ?kept"
    if "\<forall>b \<in> set balances. - (2 ^ 63) \<le> b \<and> b < 2 ^ 63"
    using q [OF that] unfolding r sum.sel .
  then show ?thesis
    using r by (intro conjI impI)
qed

theorem GetOwned_follows_response_witness:
  "abi_NextTokenIdToMint testnet = Inr 3
   \<and> abi_BalanceOfBatch testnet (map (\<lambda>i. HexToAddress testnet ''0xabcd'') [0 .. Int64 3 - 1])
        [0 .. Int64 3 - 1] = Inr [1, 2, 3]
   \<and> length [1, 2, 3 :: int] \<le> nat (Int64 3)
   \<and> map (\<lambda>m. Id (OwnerMetadata m)) (projr (snd (GetOwned testnet ''0xabcd''))) = [0, 2]
   \<and> map QuantityOwned (projr (snd (GetOwned testnet ''0xabcd''))) = [1, 3]"
proof -
  have i: "Int64 3 = 3"
    by (simp add: Int64_def)
  have u: "[0 .. (2::int)] = [0, 1, 2]"
    by code_simp
  have c: "abi_NextTokenIdToMint testnet = Inr 3"
    by (simp add: testnet_def)
  have b: "abi_BalanceOfBatch testnet
             (map (\<lambda>i. HexToAddress testnet ''0xabcd'') [0 .. Int64 3 - 1])
             [0 .. Int64 3 - 1] = Inr [1, 2, 3]"
    by (simp add: i u testnet_def)
  have l: "length [1, 2, 3 :: int] \<le> nat (Int64 3)"
    by (simp add: i)
  have r0: "resolves testnet 0" and r1: "\<not> resolves testnet 1" and r2: "resolves testnet 2"
    by (simp_all add: resolves_def Get_def getTokenMetadata_def fetchTokenMetadata_def
          testnet_def)
  have k: "filter (\<lambda>p. resolves testnet (fst p)) (zip [0 .. Int64 3 - 1] [1, 2, 3]) =
             [(0, 1), (2, 3)]"
    by (simp add: i u r0 r1 r2)
  have m: "Id (Metadata (resolved testnet 0)) = 0" "Id (Metadata (resolved testnet 2)) = 2"
    using r0 r2 by (simp_all add: resolved_Id)
  have rng: "\<forall>b \<in> set [1, 2, 3 :: int]. - (2 ^ 63) \<le> b \<and> b < 2 ^ 63"
    by simp
  have ow: "''0xabcd'' = (if ''0xabcd'' = [] then AddressString testnet (GetSignerAddress testnet)
                          else ''0xabcd'')"
    by simp
  note th = GetOwned_follows_response [OF c b ow l]
  have g: "snd (GetOwned testnet ''0xabcd'') =
             Inr (map (ownedItem testnet ''0xabcd'') [(0, 1), (2, 3)])"
    using th unfolding k by (rule conjunct1)
  have "map QuantityOwned (projr (snd (GetOwned testnet ''0xabcd''))) =
          map snd [(0 :: int, 1 :: int), (2, 3)]"
    using mp [OF conjunct2 [OF th] rng] unfolding k .
  then have q: "map QuantityOwned (projr (snd (GetOwned testnet ''0xabcd''))) = [1, 3]"
    by simp
  have d: "map (\<lambda>m. Id (OwnerMetadata m)) (projr (snd (GetOwned testnet ''0xabcd''))) = [0, 2]"
    unfolding g by (simp add: ownedItem_def m)
  show ?thesis
    using c b l d q by (intro conjI)
qed


text \<open>
  Claim C10. \<open>GetOwned\<close> of the empty string is \<open>GetOwned\<close> of the signer's address as
  a string. When the count is read and parsing undoes printing at the signer's address,
  the balance query that follows the count is for the signer's address, once per id;
  every returned item names the signer's address as its owner.
\<close>

theorem GetOwned_empty_address_is_signer:
  "GetOwned erc1155 [] = GetOwned erc1155 (AddressString erc1155 (GetSignerAddress erc1155))
   \<and> (abi_NextTokenIdToMint erc1155 = Inr maxId
        \<and> HexToAddress erc1155 (AddressString erc1155 (GetSignerAddress erc1155)) =
            GetSignerAddress erc1155
        \<longrightarrow> take 2 (fst (GetOwned erc1155 [])) =
              [CallNextTokenIdToMint,
               CallBalanceOfBatch (replicate (nat (Int64 maxId)) (GetSignerAddress erc1155))
                 [0 .. Int64 maxId - 1]])
   \<and> (snd (GetOwned erc1155 []) = Inr items
        \<longrightarrow> (\<forall>m \<in> set items. Owner m = AddressString erc1155 (GetSignerAddress erc1155)))"
proof -
  let ?signer = "AddressString erc1155 (GetSignerAddress erc1155)"
  have same: "GetOwned erc1155 [] = GetOwned erc1155 ?signer"
    by (simp add: GetOwned_def)
  have query: "take 2 (fst (GetOwned erc1155 [])) =
                 [CallNextTokenIdToMint,
                  CallBalanceOfBatch (replicate (nat (Int64 maxId)) (GetSignerAddress erc1155))
                    [0 .. Int64 maxId - 1]]"
    if "abi_NextTokenIdToMint erc1155 = Inr maxId"
      and "HexToAddress erc1155 ?signer = GetSignerAddress erc1155"
    using that
    by (simp add: GetOwned_def Let_def map_replicate_const split: sum.splits prod.splits)
  have own: "\<forall>m \<in> set items. Owner m = ?signer"
    if "snd (GetOwned erc1155 []) = Inr items"
  proof (cases "abi_NextTokenIdToMint erc1155")
    case (Inl e)
    then show ?thesis using that by (simp add: GetOwned_def)
  next
    case (Inr maxId')
    show ?thesis
    proof (cases "abi_BalanceOfBatch erc1155
                    (map (\<lambda>i. HexToAddress erc1155 ?signer) [0 .. Int64 maxId' - 1])
                    [0 .. Int64 maxId' - 1]")
      case (Inl e)
      then show ?thesis using that Inr by (simp add: GetOwned_def Let_def)
    next
      case b: (Inr balances)
      have "snd (ownedLoop erc1155 ?signer [0 .. Int64 maxId' - 1] 0 balances []) = Inr items"
        using that GetOwned_unfold [OF Inr b, of "[]"] by simp
      then show ?thesis
        using ownedLoop_Owner [of erc1155 ?signer _ 0 balances "[]" items] by simp
    qed
  qed
  show ?thesis
  proof (intro conjI impI)
    show "GetOwned erc1155 [] = GetOwned erc1155 ?signer"
      by (rule same)
  next
    assume a: "abi_NextTokenIdToMint erc1155 = Inr maxId
                 \<and> HexToAddress erc1155 ?signer = GetSignerAddress erc1155"
    show "take 2 (fst (GetOwned erc1155 [])) =
            [CallNextTokenIdToMint,
             CallBalanceOfBatch (replicate (nat (Int64 maxId)) (GetSignerAddress erc1155))
               [0 .. Int64 maxId - 1]]"
      by (rule query) (use a in simp_all)
  next
    assume "snd (GetOwned erc1155 []) = Inr items"
    then show "\<forall>m \<in> set items. Owner m = ?signer"
      by (rule own)
  qed
qed

theorem GetOwned_empty_address_is_signer_witness:
  "abi_NextTokenIdToMint testnet = Inr 3
   \<and> HexToAddress testnet (AddressString testnet (GetSignerAddress testnet)) =
       GetSignerAddress testnet
   \<and> GetSignerAddress testnet = 43981
   \<and> take 2 (fst (GetOwned testnet [])) =
       [CallNextTokenIdToMint, CallBalanceOfBatch [43981, 43981, 43981] [0, 1, 2]]
   \<and> map Owner (projr (snd (GetOwned testnet []))) = [''0xabcd'', ''0xabcd'']"
proof -
  have i: "Int64 3 = 3"
    by (simp add: Int64_def)
  have u: "[0 .. (2::int)] = [0, 1, 2]"
    by code_simp
  have n: "replicate (nat 3) (43981 :: address) = [43981, 43981, 43981]"
    by code_simp
  have c: "abi_NextTokenIdToMint testnet = Inr 3"
    by (simp add: testnet_def)
  have s: "GetSignerAddress testnet = 43981"
    by (simp add: testnet_def)
  have h: "HexToAddress testnet (AddressString testnet (GetSignerAddress testnet)) =
             GetSignerAddress testnet"
    by (simp add: testnet_def)
  have t: "take 2 (fst (GetOwned testnet [])) =
             [CallNextTokenIdToMint, CallBalanceOfBatch [43981, 43981, 43981] [0, 1, 2]]"
  proof -
    have "take 2 (fst (GetOwned testnet [])) =
            [CallNextTokenIdToMint,
             CallBalanceOfBatch (replicate (nat (Int64 3)) (GetSignerAddress testnet))
               [0 .. Int64 3 - 1]]"
      using mp [OF conjunct1 [OF conjunct2 [OF GetOwned_empty_address_is_signer [of testnet 3]]]
                  conjI [OF c h]] .
    then show ?thesis
      unfolding i s n by (simp add: u)
  qed
  have a: "AddressString testnet (GetSignerAddress testnet) = ''0xabcd''"
    by (simp add: testnet_def)
  have b: "abi_BalanceOfBatch testnet
             (map (\<lambda>i. HexToAddress testnet ''0xabcd'') [0 .. Int64 3 - 1])
             [0 .. Int64 3 - 1] = Inr [1, 2, 3]"
    by (simp add: i u testnet_def)
  have r0: "resolves testnet 0" and r1: "\<not> resolves testnet 1" and r2: "resolves testnet 2"
    by (simp_all add: resolves_def Get_def getTokenMetadata_def fetchTokenMetadata_def
          testnet_def)
  have l: "0 + length [1, 2, 3 :: int] \<le> length [0 .. Int64 3 - 1]"
    by (simp add: i)
  have "snd (GetOwned testnet []) =
          Inr (map (ownedItem testnet ''0xabcd'')
                 (filter (\<lambda>p. resolves testnet (fst p)) (zip [0 .. Int64 3 - 1] [1, 2, 3])))"
    using ownedLoop_result [OF l ids_in_range, of testnet "''0xabcd''" "[]"]
      GetOwned_unfold [OF c b, of "[]"]
    by (simp add: a)
  then have o: "map Owner (projr (snd (GetOwned testnet []))) = [''0xabcd'', ''0xabcd'']"
    by (simp add: i u r0 r1 r2 ownedItem_def)
  show ?thesis
    using c h s t o by (intro conjI)
qed


subsection \<open>Signing without a key\<close>

text \<open>
  \<open>SetPrivateKey\<close> is where the module reports a missing signer: it returns
  \<open>NoSignerError\<close> exactly when the key it is given cannot be processed, and then
  leaves the module as it was.
\<close>

lemma SetPrivateKey_error_iff:
  "fst (SetPrivateKey eth sdk key) = Some failure \<longleftrightarrow>
     (\<exists>e. processPrivateKey eth key = Inl e \<and> failure = NoSignerError ''erc721'' e)"
  by (auto simp: SetPrivateKey_def split: sum.splits prod.splits)

lemma SetPrivateKey_failure_keeps_module:
  "processPrivateKey eth key = Inl e \<Longrightarrow>
   SetPrivateKey eth sdk key = (Some (NoSignerError ''erc721'' e), sdk)"
  by (simp add: SetPrivateKey_def)

text \<open>
  The signing function sends the chain id request whatever the key is, and without a
  key it never returns an error: it panics.
\<close>

lemma getSigner_requests_chain_id_first:
  "fst (getSigner eth sdk a tx) = [NetChainID]"
  by (simp add: getSigner_def)

lemma getSigner_nil_key_panics:
  "privateKey sdk = None \<Longrightarrow>
   getSigner eth sdk a tx =
     ([NetChainID], Panics ''invalid memory address or nil pointer dereference'')"
  by (simp add: getSigner_def)


end
